theory Spec2Isabelle
  imports Main
begin

section \<open>Data model\<close>

text \<open>
  A recipe record as the backend returns it (interface \<open>IMeal\<close>). The interface names nine
  fields and an index signature \<open>[key: string]: string | null\<close> for the numbered
  ingredient and measure slots; the latter is kept as an association list.

  \<open>IFavourite\<close> extends \<open>IMeal\<close> by the optional key \<open>userComment\<close>. At run time a
  favourite is the very object that was handed to \<open>addFavourite\<close>, so both interfaces are
  read on one record: \<open>userComment = None\<close> is the absent key.
\<close>

record meal =
  idMeal :: string
  strMeal :: string
  strDrinkAlternate :: "string option"
  strCategory :: string
  strArea :: string
  strInstructions :: string
  strMealThumb :: string
  strTags :: "string option"
  strYoutube :: string
  dynamicKeys :: "(string \<times> string option) list"
  userComment :: "string option"

type_synonym favourite = meal

text \<open>
  The argument of \<open>searchRecipes\<close> is an object with the three filter fields;
  \<open>ISearchState\<close> carries the same three fields and four more, so it is modelled as an
  extension of the former.
\<close>

record searchParams =
  name :: string
  ingredient :: string
  area :: string

record searchState = searchParams +
  meals :: "meal list"
  loading :: bool
  error :: "string option"
  isInitial :: bool

text \<open>
  \<open>Partial<ISearchState>\<close>: every key may be absent (\<open>None\<close>). The key \<open>error\<close> has the
  value type \<open>string | null\<close>, hence the nested option.
\<close>

record searchStatePartial =
  upd_name :: "string option"
  upd_ingredient :: "string option"
  upd_area :: "string option"
  upd_meals :: "meal list option"
  upd_loading :: "bool option"
  upd_error :: "string option option"
  upd_isInitial :: "bool option"

text \<open>
  The navigation state of \<open>App\<close>: the two state cells \<open>currentPath\<close> and \<open>prevPath\<close>
  (\<open>string | null\<close>), and the last value assigned to \<open>window.location.hash\<close>.
\<close>

record navState =
  locationHash :: string
  currentPath :: string
  prevPath :: "string option"

section \<open>Favourites store (hooks/useFavourites.ts)\<close>

text \<open>
  The hook keeps one state cell. The functions it returns are closures of one render:
  \<open>isFavourite\<close> reads the list \<open>favourites\<close> of that render, while a state updater
  \<open>setFavourites((prev) => ...)\<close> receives the list \<open>prev\<close> that is in the cell when the
  updater runs. The two lists differ as soon as an update is pending.

  \<open>addFavourite\<close> tests the identifier on the list of the render and appends to \<open>prev\<close>;
  \<open>removeFavourite\<close> and \<open>addCommentToFavourite\<close> read \<open>prev\<close> only.
\<close>

definition isFavourite :: "favourite list \<Rightarrow> string \<Rightarrow> bool" where
  "isFavourite favourites mealId = list_ex (\<lambda>fav. idMeal fav = mealId) favourites"

definition addFavourite :: "favourite list \<Rightarrow> meal \<Rightarrow> favourite list \<Rightarrow> favourite list" where
  "addFavourite favourites m prev =
     (if \<not> isFavourite favourites (idMeal m) then prev @ [m] else prev)"

definition removeFavourite :: "favourite list \<Rightarrow> string \<Rightarrow> favourite list" where
  "removeFavourite prev mealId = filter (\<lambda>fav. idMeal fav \<noteq> mealId) prev"

definition addCommentToFavourite :: "favourite list \<Rightarrow> string \<Rightarrow> string \<Rightarrow> favourite list" where
  "addCommentToFavourite prev mealId comment =
     map (\<lambda>fav. if idMeal fav = mealId then fav\<lparr>userComment := Some comment\<rparr> else fav) prev"

text \<open>
  The hook between two renders: \<open>rendered\<close> is the list the closures of the last render
  read, \<open>cell\<close> the list in the state cell after the updaters called since. A call of an
  operation runs its updater on the cell; a render hands the cell to new closures. The
  updaters are pure, so running each at its call gives the list the queue gives.
\<close>

record hookState =
  rendered :: "favourite list"
  cell :: "favourite list"

datatype favAction = Add meal | Remove string | Comment string string | Render

definition startHook :: "favourite list \<Rightarrow> hookState" where
  "startHook stored = \<lparr>rendered = stored, cell = stored\<rparr>"

fun applyFav :: "hookState \<Rightarrow> favAction \<Rightarrow> hookState" where
  "applyFav h (Add m) = h\<lparr>cell := addFavourite (rendered h) m (cell h)\<rparr>"
| "applyFav h (Remove mealId) = h\<lparr>cell := removeFavourite (cell h) mealId\<rparr>"
| "applyFav h (Comment mealId comment) = h\<lparr>cell := addCommentToFavourite (cell h) mealId comment\<rparr>"
| "applyFav h Render = h\<lparr>rendered := cell h\<rparr>"

definition runHook :: "favourite list \<Rightarrow> favAction list \<Rightarrow> hookState" where
  "runHook stored acts = foldl applyFav (startHook stored) acts"

section \<open>Navigation and search-state cache (App.tsx)\<close>

definition startsWith :: "string \<Rightarrow> string \<Rightarrow> bool" where
  "startsWith s p = (take (length p) s = p)"

definition initialNav :: "string \<Rightarrow> navState" where
  "initialNav windowHash =
     \<lparr>locationHash = windowHash,
      currentPath = (if windowHash \<noteq> [] then windowHash else ''#/''),
      prevPath = None\<rparr>"

definition navigate :: "navState \<Rightarrow> string \<Rightarrow> navState" where
  "navigate s path =
     (let s1 = (if startsWith path ''#/recipe/'' \<and> \<not> startsWith (currentPath s) ''#/recipe/''
                then s\<lparr>prevPath := Some (currentPath s)\<rparr> else s);
          s2 = s1\<lparr>locationHash := path\<rparr>
      in s2\<lparr>currentPath := path\<rparr>)"

text \<open>
  \<open>if (prevPath)\<close> tests the cell for truthiness: \<open>null\<close> and the empty string both
  take the \<open>else\<close> branch, which leaves \<open>prevPath\<close> as it is.
\<close>

definition goBack :: "navState \<Rightarrow> navState" where
  "goBack s =
     (case prevPath s of
        Some p \<Rightarrow>
          if p \<noteq> []
          then s\<lparr>locationHash := p, currentPath := p, prevPath := None\<rparr>
          else s\<lparr>locationHash := ''#/'', currentPath := ''#/''\<rparr>
      | None \<Rightarrow> s\<lparr>locationHash := ''#/'', currentPath := ''#/''\<rparr>)"

text \<open>
  The actions of the application on the navigation state. Every caller of \<open>navigate\<close>
  passes \<open>'#/'\<close>, \<open>'#/search'\<close>, \<open>'#/favourites'\<close> or \<open>'#/recipe/'\<close> followed by an
  identifier, and the initial state replaces an empty hash by \<open>'#/'\<close>: the routes the
  application issues are not empty.
\<close>

datatype navAction = Navigate string | GoBack

fun applyNav :: "navState \<Rightarrow> navAction \<Rightarrow> navState" where
  "applyNav s (Navigate path) = navigate s path"
| "applyNav s GoBack = goBack s"

fun issuedRoute :: "navAction \<Rightarrow> bool" where
  "issuedRoute (Navigate path) = (path \<noteq> [])"
| "issuedRoute GoBack = True"

definition navRun :: "string \<Rightarrow> navAction list \<Rightarrow> navState" where
  "navRun windowHash acts = foldl applyNav (initialNav windowHash) acts"

definition initialSearchState :: searchState where
  "initialSearchState =
     \<lparr>name = [], ingredient = [], area = [], meals = [], loading = False,
      error = None, isInitial = True\<rparr>"

text \<open>The object spread \<open>{ ...prev, ...s }\<close>: a key present in \<open>s\<close> wins, key by key.\<close>

definition spread :: "'a \<Rightarrow> 'a option \<Rightarrow> 'a" where
  "spread old new = (case new of None \<Rightarrow> old | Some v \<Rightarrow> v)"

definition setSearchState :: "searchState \<Rightarrow> searchStatePartial \<Rightarrow> searchState" where
  "setSearchState prev s =
     \<lparr>name = spread (name prev) (upd_name s),
      ingredient = spread (ingredient prev) (upd_ingredient s),
      area = spread (area prev) (upd_area s),
      meals = spread (meals prev) (upd_meals s),
      loading = spread (loading prev) (upd_loading s),
      error = spread (error prev) (upd_error s),
      isInitial = spread (isInitial prev) (upd_isInitial s)\<rparr>"

section \<open>API client (utils/api.ts)\<close>

text \<open>
  A rejected promise carries a JavaScript error object: the \<open>Error\<close> the client throws
  with a message, the \<open>TypeError\<close> with which \<open>fetch\<close> rejects when no response arrives,
  or the \<open>SyntaxError\<close> with which \<open>response.json()\<close> rejects on a body that is not JSON.
  A settled promise is a value of \<open>js_error + 'a\<close>, \<open>Inl\<close> the rejection.
\<close>

datatype js_error = Error string | TypeError string | SyntaxError string

text \<open>
  The parsed body of a response, as far as the client reads it: the key \<open>meals\<close> is
  \<open>null\<close> or an array of records.
\<close>

datatype jsonBody = NotJson string | MealsNull | MealsArray "meal list"

record response =
  ok :: bool
  statusText :: string
  body :: jsonBody

text \<open>
  The backend is outside the program. A request either gets no response at all, and
  \<open>fetch\<close> rejects with a \<open>TypeError\<close>, or it gets a response, with any status. The answer
  may differ from one call to the next (the random endpoint), so the backend is a function
  of the number of the request, counted in the order in which the client issues them, and
  of the URL.
\<close>

datatype fetchOutcome = NetworkFailure string | Responded response

type_synonym backend = "nat \<Rightarrow> string \<Rightarrow> fetchOutcome"

definition fetch :: "backend \<Rightarrow> nat \<Rightarrow> string \<Rightarrow> js_error + response" where
  "fetch be k url =
     (case be k url of NetworkFailure msg \<Rightarrow> Inl (TypeError msg) | Responded r \<Rightarrow> Inr r)"

definition API_BASE :: string where
  "API_BASE = ''https://www.themealdb.com/api/json/v1/1/''"

text \<open>\<open>p.then(f)\<close> for a settled promise \<open>p\<close> and a handler \<open>f\<close> that may throw.\<close>

definition thenP :: "js_error + 'a \<Rightarrow> ('a \<Rightarrow> js_error + 'b) \<Rightarrow> js_error + 'b" where
  "thenP p f = (case p of Inl e \<Rightarrow> Inl e | Inr v \<Rightarrow> f v)"

text \<open>
  \<open>Promise.all\<close>: fulfilled with all the values, in the order of the input, when every
  promise is fulfilled, and rejected as soon as one is. Which rejection it carries when
  several promises fail depends on their arrival; the model takes the first in the order
  of the input.
\<close>

fun promiseAll :: "(js_error + 'a) list \<Rightarrow> js_error + 'a list" where
  "promiseAll [] = Inr []"
| "promiseAll (p # ps) =
     (case p of
        Inl e \<Rightarrow> Inl e
      | Inr v \<Rightarrow> (case promiseAll ps of Inl e \<Rightarrow> Inl e | Inr vs \<Rightarrow> Inr (v # vs)))"

definition handleResponse :: "response \<Rightarrow> js_error + meal list" where
  "handleResponse r =
     (if \<not> ok r then Inl (Error (''API request failed: '' @ statusText r))
      else case body r of
             NotJson msg \<Rightarrow> Inl (SyntaxError msg)
           | MealsNull \<Rightarrow> Inr []
           | MealsArray ms \<Rightarrow> Inr ms)"

text \<open>
  The loop \<open>for (let i = 0; i < count; i++)\<close> issues requests \<open>k, k + 1, ...\<close>; it does
  not run for a count below one.
\<close>

definition fetchRandomRecipes :: "backend \<Rightarrow> nat \<Rightarrow> int \<Rightarrow> js_error + meal list" where
  "fetchRandomRecipes be k count =
     (case promiseAll
             (map (\<lambda>i. thenP (fetch be (k + i) (API_BASE @ ''random.php'')) handleResponse)
                  [0..<nat count]) of
        Inl e \<Rightarrow> Inl e
      | Inr results \<Rightarrow> Inr (concat results))"

definition fetchRecipeById :: "backend \<Rightarrow> nat \<Rightarrow> string \<Rightarrow> js_error + meal" where
  "fetchRecipeById be k ident =
     (case thenP (fetch be k (API_BASE @ ''lookup.php?i='' @ ident)) handleResponse of
        Inl e \<Rightarrow> Inl e
      | Inr results \<Rightarrow>
          (case results of
             [] \<Rightarrow> Inl (Error (''Recipe with ID '' @ ident @ '' not found.''))
           | m # _ \<Rightarrow> Inr m))"

text \<open>A string used as a condition is true unless it is empty.\<close>

definition truthy :: "string \<Rightarrow> bool" where
  "truthy str = (str \<noteq> [])"

text \<open>
  The URL of the first request of a search, \<open>None\<close> where the function returns the
  random records instead.
\<close>

definition searchUrl :: "'a searchParams_scheme \<Rightarrow> string option" where
  "searchUrl params =
     (if truthy (name params) then Some (API_BASE @ ''search.php?s='' @ name params)
      else if truthy (ingredient params) then Some (API_BASE @ ''filter.php?i='' @ ingredient params)
      else if truthy (area params) then Some (API_BASE @ ''filter.php?a='' @ area params)
      else None)"

definition searchRecipes :: "backend \<Rightarrow> nat \<Rightarrow> 'a searchParams_scheme \<Rightarrow> js_error + meal list" where
  "searchRecipes be k params =
     (case searchUrl params of
        None \<Rightarrow> fetchRandomRecipes be k 9
      | Some url \<Rightarrow>
          (case thenP (fetch be k url) handleResponse of
             Inl e \<Rightarrow> Inl e
           | Inr results \<Rightarrow>
               if truthy (ingredient params) \<or> truthy (area params)
               then promiseAll
                      (map (\<lambda>(i, lightMeal). fetchRecipeById be (k + 1 + i) (idMeal lightMeal))
                           (enumerate 0 results))
               else Inr results))"

section \<open>Timeout wrapper (utils/api.ts, \<open>timeout\<close>)\<close>

text \<open>
  The wrapper arms a timer, starts the operation, and then arbitrates between two sources
  of events, the timer and the promise of the operation. The duration \<open>timeoutMs\<close> only
  decides when the timer's event occurs, so the order of the events stands for it. The
  state is the flag \<open>timedOut\<close>, the timer, and the promise the wrapper returned;
  \<open>settleCalls\<close> counts how often the wrapper called \<open>resolve\<close> or \<open>reject\<close>, and
  \<open>opSettled\<close> records that the operation's promise has settled.
\<close>

datatype 'a settlement = Fulfilled 'a | Rejected js_error

datatype timerState = Armed | Fired | Cleared

record 'a timeoutState =
  timedOut :: bool
  timer :: timerState
  opSettled :: bool
  returned :: "'a settlement option"
  settleCalls :: nat

datatype 'a event = TimerElapsed | OpFulfilled 'a | OpRejected js_error

definition timeoutStart :: "'a timeoutState" where
  "timeoutStart =
     \<lparr>timedOut = False, timer = Armed, opSettled = False, returned = None, settleCalls = 0\<rparr>"

text \<open>\<open>resolve\<close> and \<open>reject\<close> of the returned promise: only the first call settles it.\<close>

definition settle :: "'a settlement \<Rightarrow> 'a timeoutState \<Rightarrow> 'a timeoutState" where
  "settle x s =
     s\<lparr>returned := (case returned s of None \<Rightarrow> Some x | Some y \<Rightarrow> Some y),
       settleCalls := settleCalls s + 1\<rparr>"

definition clearTimeout :: "'a timeoutState \<Rightarrow> 'a timeoutState" where
  "clearTimeout s = (if timer s = Armed then s\<lparr>timer := Cleared\<rparr> else s)"

text \<open>The three callbacks the wrapper registers.\<close>

definition onTimer :: "string \<Rightarrow> 'a timeoutState \<Rightarrow> 'a timeoutState" where
  "onTimer timeoutMessage s = settle (Rejected (Error timeoutMessage)) (s\<lparr>timedOut := True\<rparr>)"

definition onThen :: "'a \<Rightarrow> 'a timeoutState \<Rightarrow> 'a timeoutState" where
  "onThen data s = (if timedOut s then s else settle (Fulfilled data) (clearTimeout s))"

definition onCatch :: "js_error \<Rightarrow> 'a timeoutState \<Rightarrow> 'a timeoutState" where
  "onCatch err s = (if timedOut s then s else settle (Rejected err) (clearTimeout s))"

text \<open>
  The run time delivers the timer's callback once and only while the timer is armed, and
  the outcome of the operation once.
\<close>

definition deliver :: "string \<Rightarrow> 'a timeoutState \<Rightarrow> 'a event \<Rightarrow> 'a timeoutState" where
  "deliver timeoutMessage s ev =
     (case ev of
        TimerElapsed \<Rightarrow>
          if timer s = Armed then onTimer timeoutMessage (s\<lparr>timer := Fired\<rparr>) else s
      | OpFulfilled data \<Rightarrow>
          if opSettled s then s else onThen data (s\<lparr>opSettled := True\<rparr>)
      | OpRejected err \<Rightarrow>
          if opSettled s then s else onCatch err (s\<lparr>opSettled := True\<rparr>))"

definition timeout :: "string \<Rightarrow> 'a event list \<Rightarrow> 'a timeoutState" where
  "timeout timeoutMessage evs = foldl (deliver timeoutMessage) timeoutStart evs"

section \<open>Example values\<close>

text \<open>Concrete records and backends, used where a statement is evaluated on an input.\<close>

definition exampleMeal :: "string \<Rightarrow> string \<Rightarrow> meal" where
  "exampleMeal ident title =
     \<lparr>idMeal = ident, strMeal = title, strDrinkAlternate = None, strCategory = ''Chicken'',
      strArea = ''Jamaican'', strInstructions = ''Stew.'', strMealThumb = ''t.jpg'',
      strTags = None, strYoutube = [], dynamicKeys = [(''strIngredient1'', Some ''Chicken'')],
      userComment = None\<rparr>"

text \<open>The update that mentions no field, \<open>{}\<close>.\<close>

definition noUpdate :: searchStatePartial where
  "noUpdate =
     \<lparr>upd_name = None, upd_ingredient = None, upd_area = None, upd_meals = None,
      upd_loading = None, upd_error = None, upd_isInitial = None\<rparr>"

text \<open>A response with status 200 and the given records, and one with the body \<open>{"meals": null}\<close>.\<close>

definition okResponse :: "meal list \<Rightarrow> response" where
  "okResponse ms = \<lparr>ok = True, statusText = ''OK'', body = MealsArray ms\<rparr>"

definition nullResponse :: response where
  "nullResponse = \<lparr>ok = True, statusText = ''OK'', body = MealsNull\<rparr>"

definition failedResponse :: "string \<Rightarrow> response" where
  "failedResponse status = \<lparr>ok = False, statusText = status, body = NotJson ''<html>''\<rparr>"

text \<open>A backend that answers every request with one and the same response.\<close>

definition constBackend :: "response \<Rightarrow> backend" where
  "constBackend r = (\<lambda>k url. Responded r)"

text \<open>
  A backend that knows one recipe: the search by name finds it, the filters list its
  abbreviated form, and the lookup by identifier answers as given.
\<close>

definition fullMeal :: meal where
  "fullMeal = exampleMeal ''52940'' ''Brown Stew Chicken''"

definition lightMeal :: meal where
  "lightMeal =
     \<lparr>idMeal = ''52940'', strMeal = ''Brown Stew Chicken'', strDrinkAlternate = None,
      strCategory = [], strArea = [], strInstructions = [], strMealThumb = ''t.jpg'',
      strTags = None, strYoutube = [], dynamicKeys = [], userComment = None\<rparr>"

definition recipeBackend :: "response \<Rightarrow> backend" where
  "recipeBackend lookupAnswer =
     (\<lambda>k url.
        if url = API_BASE @ ''search.php?s=chicken'' then Responded (okResponse [fullMeal])
        else if url = API_BASE @ ''filter.php?i=chicken'' then Responded (okResponse [lightMeal])
        else if url = API_BASE @ ''lookup.php?i=52940'' then Responded lookupAnswer
        else Responded nullResponse)"

section \<open>Favourites store: properties\<close>

lemma isFavourite_iff: "isFavourite favs i \<longleftrightarrow> i \<in> set (map idMeal favs)"
  by (auto simp: isFavourite_def list_ex_iff)

lemma removeFavourite_absent: "\<not> isFavourite favs i \<Longrightarrow> removeFavourite favs i = favs"
  by (induction favs) (auto simp: isFavourite_def removeFavourite_def)

lemma addComment_absent: "\<not> isFavourite favs i \<Longrightarrow> addCommentToFavourite favs i c = favs"
  by (induction favs) (auto simp: isFavourite_def addCommentToFavourite_def)

lemma addComment_ids: "map idMeal (addCommentToFavourite favs i c) = map idMeal favs"
  by (induction favs) (auto simp: addCommentToFavourite_def)

lemma removeFavourite_ids:
  "map idMeal (removeFavourite favs i) = filter (\<lambda>j. j \<noteq> i) (map idMeal favs)"
  by (induction favs) (auto simp: removeFavourite_def)

lemma removeFavourite_not_member: "\<not> isFavourite (removeFavourite favs i) i"
  by (simp add: isFavourite_iff removeFavourite_ids)

lemma remove_addComment:
  "removeFavourite (addCommentToFavourite favs i c) i = removeFavourite favs i"
  by (induction favs) (auto simp: removeFavourite_def addCommentToFavourite_def)

lemma remove_append: "removeFavourite (favs @ [m]) (idMeal m) = removeFavourite favs (idMeal m)"
  by (simp add: removeFavourite_def)

text \<open>
  What holds of an operation called from a render that has seen every update, so that the
  list of the render is the list in the cell: distinct identifiers stay distinct, adding
  a present identifier changes nothing and adding an absent one appends it last.
  \<open>removeFavourite\<close> and \<open>addCommentToFavourite\<close> do not depend on the render: removing
  and commenting on an absent identifier change nothing, and neither introduces an entry.
\<close>

lemma up_to_date_render_unique_ids:
  "(distinct (map idMeal favs) \<longrightarrow>
      distinct (map idMeal (addFavourite favs m favs)) \<and>
      distinct (map idMeal (removeFavourite favs i)) \<and>
      distinct (map idMeal (addCommentToFavourite favs i c))) \<and>
   (isFavourite favs (idMeal m) \<longrightarrow> addFavourite favs m favs = favs) \<and>
   (\<not> isFavourite favs (idMeal m) \<longrightarrow> addFavourite favs m favs = favs @ [m]) \<and>
   set (removeFavourite favs i) \<subseteq> set favs \<and>
   length (removeFavourite favs i) \<le> length favs \<and>
   map idMeal (addCommentToFavourite favs i c) = map idMeal favs"
proof -
  have sub: "set (removeFavourite favs i) \<subseteq> set favs"
    and len: "length (removeFavourite favs i) \<le> length favs"
    by (simp_all add: removeFavourite_def)
  show ?thesis
    using sub len
    by (auto simp: addFavourite_def isFavourite_iff removeFavourite_ids addComment_ids)
qed

lemma absent_identifier_unchanged:
  "\<not> isFavourite prev i \<Longrightarrow>
   removeFavourite prev i = prev \<and> addCommentToFavourite prev i c = prev"
  by (simp add: removeFavourite_absent addComment_absent)

lemma readd_after_renders:
  "cell (runHook favs [Add m, Render, Comment (idMeal m) c, Render, Remove (idMeal m), Render,
                       Add m, Render])
     = removeFavourite favs (idMeal m) @ [m] \<and>
   isFavourite
     (rendered (runHook favs [Add m, Render, Comment (idMeal m) c, Render, Remove (idMeal m),
                              Render, Add m, Render]))
     (idMeal m)"
proof -
  let ?A = "addFavourite favs m favs"
  let ?R = "removeFavourite favs (idMeal m)"
  have r: "removeFavourite (addCommentToFavourite ?A (idMeal m) c) (idMeal m) = ?R"
    by (simp add: remove_addComment addFavourite_def remove_append)
  have d: "addFavourite ?R m ?R = ?R @ [m]"
    by (simp add: addFavourite_def removeFavourite_not_member)
  have run: "runHook favs [Add m, Render, Comment (idMeal m) c, Render, Remove (idMeal m), Render,
                           Add m, Render]
      = \<lparr>rendered = ?R @ [m], cell = ?R @ [m]\<rparr>"
    by (simp add: runHook_def startHook_def r d)
  show ?thesis
    unfolding run by (simp add: isFavourite_iff)
qed



section \<open>Navigation: properties\<close>

text \<open>
  In every state the application reaches, the current route is not empty and a saved
  route is not empty either, so the test \<open>if (prevPath)\<close> of \<open>goBack\<close> is the test for a
  saved route.
\<close>

lemma applyNav_routes:
  "issuedRoute a \<Longrightarrow> currentPath s \<noteq> [] \<Longrightarrow> prevPath s \<noteq> Some [] \<Longrightarrow>
   currentPath (applyNav s a) \<noteq> [] \<and> prevPath (applyNav s a) \<noteq> Some []"
  by (cases a) (auto simp: navigate_def goBack_def Let_def split: option.splits)

lemma foldl_applyNav_routes:
  "list_all issuedRoute acts \<Longrightarrow> currentPath s \<noteq> [] \<Longrightarrow> prevPath s \<noteq> Some [] \<Longrightarrow>
   currentPath (foldl applyNav s acts) \<noteq> [] \<and> prevPath (foldl applyNav s acts) \<noteq> Some []"
proof (induction acts arbitrary: s)
  case Nil
  then show ?case by simp
next
  case (Cons a acts)
  from Cons.prems have a: "issuedRoute a" and rest: "list_all issuedRoute acts"
    by simp_all
  from applyNav_routes [OF a Cons.prems(2,3)]
  show ?case using Cons.IH [OF rest, of "applyNav s a"] by simp
qed

lemma navRun_routes:
  "list_all issuedRoute acts \<Longrightarrow>
   currentPath (navRun h acts) \<noteq> [] \<and> prevPath (navRun h acts) \<noteq> Some []"
  unfolding navRun_def
  by (rule foldl_applyNav_routes) (simp_all add: initialNav_def)

text \<open>
  Claim C8. Navigating to a detail route from a route that is not a detail route saves the
  current route as the previous route, whatever was saved before, and switches;
  navigating from a detail route switches and leaves the saved route as it is. In every
  state the application reaches, \<open>goBack\<close> moves to the saved route and clears it when one
  is saved; when none is saved it moves to the root route. After \<open>navigate('#/')\<close> and a
  navigation to a detail route, one \<open>goBack\<close> lands on the root route with nothing saved,
  and a second one lands there again.
\<close>

theorem navigation_rules:
  "(startsWith path ''#/recipe/'' \<and> \<not> startsWith (currentPath s) ''#/recipe/'' \<longrightarrow>
      prevPath (navigate s path) = Some (currentPath s) \<and> currentPath (navigate s path) = path) \<and>
   (startsWith (currentPath s) ''#/recipe/'' \<longrightarrow>
      prevPath (navigate s path) = prevPath s \<and> currentPath (navigate s path) = path) \<and>
   (list_all issuedRoute acts \<and> prevPath (navRun h acts) = Some p \<longrightarrow>
      currentPath (goBack (navRun h acts)) = p \<and> prevPath (goBack (navRun h acts)) = None) \<and>
   (prevPath s = None \<longrightarrow>
      currentPath (goBack s) = ''#/'' \<and> prevPath (goBack s) = None) \<and>
   (startsWith d ''#/recipe/'' \<longrightarrow>
      currentPath (goBack (navigate (navigate s ''#/'') d)) = ''#/'' \<and>
      prevPath (goBack (navigate (navigate s ''#/'') d)) = None \<and>
      currentPath (goBack (goBack (navigate (navigate s ''#/'') d))) = ''#/'')"
proof -
  have saved: "currentPath (goBack (navRun h acts)) = p \<and> prevPath (goBack (navRun h acts)) = None"
    if "list_all issuedRoute acts" and "prevPath (navRun h acts) = Some p"
  proof -
    from navRun_routes [OF that(1), of h] that(2) have "p \<noteq> []" by auto
    with that(2) show ?thesis by (simp add: goBack_def)
  qed
  have rest:
    "(startsWith path ''#/recipe/'' \<and> \<not> startsWith (currentPath s) ''#/recipe/'' \<longrightarrow>
        prevPath (navigate s path) = Some (currentPath s) \<and> currentPath (navigate s path) = path) \<and>
     (startsWith (currentPath s) ''#/recipe/'' \<longrightarrow>
        prevPath (navigate s path) = prevPath s \<and> currentPath (navigate s path) = path) \<and>
     (prevPath s = None \<longrightarrow>
        currentPath (goBack s) = ''#/'' \<and> prevPath (goBack s) = None) \<and>
     (startsWith d ''#/recipe/'' \<longrightarrow>
        currentPath (goBack (navigate (navigate s ''#/'') d)) = ''#/'' \<and>
        prevPath (goBack (navigate (navigate s ''#/'') d)) = None \<and>
        currentPath (goBack (goBack (navigate (navigate s ''#/'') d))) = ''#/'')"
    by (simp add: navigate_def goBack_def startsWith_def Let_def)
  show ?thesis using saved rest by blast
qed

theorem navigation_rules_witness:
  "startsWith ''#/recipe/42'' ''#/recipe/'' \<and>
   \<not> startsWith (currentPath (initialNav ''#/search'')) ''#/recipe/'' \<and>
   prevPath (navigate (initialNav ''#/search'') ''#/recipe/42'') = Some ''#/search'' \<and>
   currentPath (navigate (initialNav ''#/search'') ''#/recipe/42'') = ''#/recipe/42'' \<and>
   list_all issuedRoute [Navigate ''#/recipe/42''] \<and>
   prevPath (navRun ''#/search'' [Navigate ''#/recipe/42'']) = Some ''#/search'' \<and>
   currentPath (goBack (navRun ''#/search'' [Navigate ''#/recipe/42''])) = ''#/search'' \<and>
   prevPath (goBack (navRun ''#/search'' [Navigate ''#/recipe/42''])) = None \<and>
   currentPath (goBack (navigate (navigate (initialNav ''#/search'') ''#/'') ''#/recipe/42'')) = ''#/'' \<and>
   currentPath (goBack (goBack (navigate (navigate (initialNav ''#/search'') ''#/'') ''#/recipe/42''))) = ''#/''"
  using navigation_rules
      [of "''#/recipe/42''" "initialNav ''#/search''" "[Navigate ''#/recipe/42'']" "''#/search''"
          "''#/search''" "''#/recipe/42''"]
  by (simp add: initialNav_def startsWith_def navigate_def navRun_def)

text \<open>
  Claim C10. Navigating to a route that is not a detail route leaves the saved previous
  route as it is, and no navigation clears a saved route. So when, in a state the
  application reaches, a detail route is opened from a route \<open>A\<close> that is not a detail
  route, and the detail route is then left by a navigation to any route \<open>B\<close>, the saved
  route is still \<open>A\<close> and a later \<open>goBack\<close> moves to \<open>A\<close>, not to \<open>B\<close>.
\<close>

theorem plain_navigate_keeps_previous:
  "(\<not> startsWith b ''#/recipe/'' \<longrightarrow> prevPath (navigate s b) = prevPath s) \<and>
   (prevPath s \<noteq> None \<longrightarrow> prevPath (navigate s b) \<noteq> None) \<and>
   (list_all issuedRoute acts \<and> \<not> startsWith (currentPath (navRun h acts)) ''#/recipe/'' \<and>
    startsWith d ''#/recipe/'' \<longrightarrow>
      prevPath (navigate (navigate (navRun h acts) d) b) = Some (currentPath (navRun h acts)) \<and>
      currentPath (goBack (navigate (navigate (navRun h acts) d) b)) = currentPath (navRun h acts) \<and>
      prevPath (goBack (navigate (navigate (navRun h acts) d) b)) = None)"
proof -
  have detour:
    "prevPath (navigate (navigate (navRun h acts) d) b) = Some (currentPath (navRun h acts)) \<and>
     currentPath (goBack (navigate (navigate (navRun h acts) d) b)) = currentPath (navRun h acts) \<and>
     prevPath (goBack (navigate (navigate (navRun h acts) d) b)) = None"
    if "list_all issuedRoute acts" and "\<not> startsWith (currentPath (navRun h acts)) ''#/recipe/''"
      and "startsWith d ''#/recipe/''"
  proof -
    from navRun_routes [OF that(1), of h] have "currentPath (navRun h acts) \<noteq> []" by simp
    with that(2,3) show ?thesis
      by (auto simp: navigate_def goBack_def startsWith_def Let_def)
  qed
  have plain:
    "(\<not> startsWith b ''#/recipe/'' \<longrightarrow> prevPath (navigate s b) = prevPath s) \<and>
     (prevPath s \<noteq> None \<longrightarrow> prevPath (navigate s b) \<noteq> None)"
    by (auto simp: navigate_def Let_def)
  show ?thesis using detour plain by blast
qed

theorem plain_navigate_keeps_previous_witness:
  "\<not> startsWith ''#/favourites'' ''#/recipe/'' \<and>
   list_all issuedRoute [Navigate ''#/'', Navigate ''#/search''] \<and>
   currentPath (navRun ''#/favourites'' [Navigate ''#/'', Navigate ''#/search'']) = ''#/search'' \<and>
   startsWith ''#/recipe/42'' ''#/recipe/'' \<and>
   prevPath
       (navigate
          (navigate (navRun ''#/favourites'' [Navigate ''#/'', Navigate ''#/search'']) ''#/recipe/42'')
          ''#/favourites'')
     = Some ''#/search'' \<and>
   currentPath
       (navigate
          (navigate (navRun ''#/favourites'' [Navigate ''#/'', Navigate ''#/search'']) ''#/recipe/42'')
          ''#/favourites'')
     = ''#/favourites'' \<and>
   currentPath
       (goBack
          (navigate
             (navigate (navRun ''#/favourites'' [Navigate ''#/'', Navigate ''#/search''])
                ''#/recipe/42'')
             ''#/favourites''))
     = ''#/search''"
  using plain_navigate_keeps_previous
      [of "''#/favourites''" "navRun ''#/favourites'' [Navigate ''#/'', Navigate ''#/search'']"
          "[Navigate ''#/'', Navigate ''#/search'']" "''#/favourites''" "''#/recipe/42''"]
  by (simp add: initialNav_def startsWith_def navigate_def navRun_def)

section \<open>Search-state cache: properties\<close>

text \<open>
  Claim C9. For every search session and every partial update, each of the seven fields
  of the merged session is the value the update gives for that field when the update
  mentions it, and the value of the previous session when it does not.
\<close>

theorem setSearchState_merge:
  "name (setSearchState prev s) = (case upd_name s of None \<Rightarrow> name prev | Some v \<Rightarrow> v) \<and>
   ingredient (setSearchState prev s)
     = (case upd_ingredient s of None \<Rightarrow> ingredient prev | Some v \<Rightarrow> v) \<and>
   area (setSearchState prev s) = (case upd_area s of None \<Rightarrow> area prev | Some v \<Rightarrow> v) \<and>
   meals (setSearchState prev s) = (case upd_meals s of None \<Rightarrow> meals prev | Some v \<Rightarrow> v) \<and>
   loading (setSearchState prev s)
     = (case upd_loading s of None \<Rightarrow> loading prev | Some v \<Rightarrow> v) \<and>
   error (setSearchState prev s) = (case upd_error s of None \<Rightarrow> error prev | Some v \<Rightarrow> v) \<and>
   isInitial (setSearchState prev s)
     = (case upd_isInitial s of None \<Rightarrow> isInitial prev | Some v \<Rightarrow> v)"
  by (simp add: setSearchState_def spread_def)

theorem setSearchState_merge_witness:
  "name (setSearchState
           (setSearchState (initialSearchState\<lparr>name := ''pie''\<rparr>) (noUpdate\<lparr>upd_loading := Some True\<rparr>))
           (noUpdate\<lparr>upd_meals := Some [exampleMeal ''1'' ''A''], upd_loading := Some False\<rparr>))
     = ''pie'' \<and>
   loading (setSearchState (initialSearchState\<lparr>name := ''pie''\<rparr>) (noUpdate\<lparr>upd_loading := Some True\<rparr>))
     = True \<and>
   meals (setSearchState
            (setSearchState (initialSearchState\<lparr>name := ''pie''\<rparr>) (noUpdate\<lparr>upd_loading := Some True\<rparr>))
            (noUpdate\<lparr>upd_meals := Some [exampleMeal ''1'' ''A''], upd_loading := Some False\<rparr>))
     = [exampleMeal ''1'' ''A''] \<and>
   loading (setSearchState
              (setSearchState (initialSearchState\<lparr>name := ''pie''\<rparr>) (noUpdate\<lparr>upd_loading := Some True\<rparr>))
              (noUpdate\<lparr>upd_meals := Some [exampleMeal ''1'' ''A''], upd_loading := Some False\<rparr>))
     = False"
  using setSearchState_merge
      [of "initialSearchState\<lparr>name := ''pie''\<rparr>" "noUpdate\<lparr>upd_loading := Some True\<rparr>"]
    setSearchState_merge
      [of "setSearchState (initialSearchState\<lparr>name := ''pie''\<rparr>) (noUpdate\<lparr>upd_loading := Some True\<rparr>)"
          "noUpdate\<lparr>upd_meals := Some [exampleMeal ''1'' ''A''], upd_loading := Some False\<rparr>"]
  by (simp add: initialSearchState_def noUpdate_def)

section \<open>API client: properties\<close>

lemma promiseAll_map_Inr_id: "promiseAll (map Inr vs) = Inr vs"
  by (induction vs) simp_all

lemma promiseAll_Inr_D: "promiseAll ps = Inr vs \<Longrightarrow> ps = map Inr vs"
proof (induction ps arbitrary: vs)
  case Nil
  then show ?case by simp
next
  case (Cons p ps)
  then show ?case by (auto split: sum.splits)
qed

lemma promiseAll_Inr_iff: "promiseAll ps = Inr vs \<longleftrightarrow> ps = map Inr vs"
  using promiseAll_Inr_D promiseAll_map_Inr_id by blast

lemma promiseAll_Inl_iff: "(\<exists>e. promiseAll ps = Inl e) \<longleftrightarrow> (\<exists>p \<in> set ps. \<exists>e. p = Inl e)"
  by (induction ps) (auto split: sum.splits)

lemma promiseAll_map_Inr:
  "promiseAll (map f [0..<n]) = Inr vs \<longleftrightarrow> length vs = n \<and> (\<forall>i<n. f i = Inr (vs ! i))"
proof -
  have "map f [0..<n] = map Inr vs \<longleftrightarrow> length vs = n \<and> (\<forall>i<n. f i = Inr (vs ! i))"
    by (auto simp: list_eq_iff_nth_eq)
  then show ?thesis by (simp add: promiseAll_Inr_iff)
qed

lemma promiseAll_map_Inl:
  "(\<exists>e. promiseAll (map f [0..<n]) = Inl e) \<longleftrightarrow> (\<exists>i<n. \<exists>e. f i = Inl e)"
  by (auto simp: promiseAll_Inl_iff)


lemma length_concat_singletons:
  "(\<forall>r \<in> set rs. length r = 1) \<Longrightarrow> length (concat rs) = length rs"
  by (induction rs) auto

text \<open>
  Claim C2, as stated, at a response without a record. The backend answers the one
  request with status 200 and the body \<open>{"meals": null}\<close>, which \<open>handleResponse\<close> turns
  into the empty list: fetching one random record succeeds with no record.
\<close>

theorem fetchRandomRecipes_null_answer:
  "fetchRandomRecipes (constBackend nullResponse) 0 1 = Inr []"
  by (simp add: fetchRandomRecipes_def constBackend_def nullResponse_def fetch_def thenP_def
      handleResponse_def)

text \<open>
  Claim C2, amended. Fetching \<open>n\<close> random records succeeds exactly when each of the
  \<open>n\<close> requests succeeds, and the result is then the concatenation of the lists of the
  requests, in the order of the requests. It fails exactly when one of the requests fails:
  there is no partial result. For \<open>n \<ge> 0\<close>, when every request that succeeds carries
  exactly one record, a result has exactly \<open>n\<close> records.
\<close>

theorem fetchRandomRecipes_all_or_nothing:
  "(fetchRandomRecipes be k n = Inr ms \<longleftrightarrow>
      (\<exists>rs. length rs = nat n \<and>
            (\<forall>i<nat n. thenP (fetch be (k + i) (API_BASE @ ''random.php'')) handleResponse = Inr (rs ! i)) \<and>
            ms = concat rs)) \<and>
   ((\<exists>e. fetchRandomRecipes be k n = Inl e) \<longleftrightarrow>
      (\<exists>i<nat n. \<exists>e. thenP (fetch be (k + i) (API_BASE @ ''random.php'')) handleResponse = Inl e)) \<and>
   (0 \<le> n \<and>
    (\<forall>i<nat n. \<forall>rs. thenP (fetch be (k + i) (API_BASE @ ''random.php'')) handleResponse = Inr rs
        \<longrightarrow> length rs = 1) \<and>
    fetchRandomRecipes be k n = Inr ms \<longrightarrow> int (length ms) = n)"
proof -
  let ?call = "\<lambda>i. thenP (fetch be (k + i) (API_BASE @ ''random.php'')) handleResponse"
  have A: "fetchRandomRecipes be k n = Inr ms \<longleftrightarrow>
      (\<exists>rs. length rs = nat n \<and> (\<forall>i<nat n. ?call i = Inr (rs ! i)) \<and> ms = concat rs)"
  proof -
    have "fetchRandomRecipes be k n = Inr ms \<longleftrightarrow>
        (\<exists>rs. promiseAll (map ?call [0..<nat n]) = Inr rs \<and> ms = concat rs)"
      unfolding fetchRandomRecipes_def by (auto split: sum.splits)
    then show ?thesis by (simp only: promiseAll_map_Inr) blast
  qed
  have B: "(\<exists>e. fetchRandomRecipes be k n = Inl e) \<longleftrightarrow> (\<exists>i<nat n. \<exists>e. ?call i = Inl e)"
  proof -
    have "(\<exists>e. fetchRandomRecipes be k n = Inl e) \<longleftrightarrow> (\<exists>e. promiseAll (map ?call [0..<nat n]) = Inl e)"
      unfolding fetchRandomRecipes_def by (auto split: sum.splits)
    then show ?thesis by (simp only: promiseAll_map_Inl)
  qed
  have C: "int (length ms) = n"
    if n: "0 \<le> n" and one: "\<forall>i<nat n. \<forall>rs. ?call i = Inr rs \<longrightarrow> length rs = 1"
      and ok: "fetchRandomRecipes be k n = Inr ms"
  proof -
    from ok A obtain rs where rs: "length rs = nat n" "\<forall>i<nat n. ?call i = Inr (rs ! i)" "ms = concat rs"
      by blast
    have "\<forall>r \<in> set rs. length r = 1"
      using rs one by (auto simp: in_set_conv_nth)
    then have "length (concat rs) = length rs" by (rule length_concat_singletons)
    with rs n show ?thesis by simp
  qed
  show ?thesis using A B C by blast
qed

theorem fetchRandomRecipes_all_or_nothing_witness:
  "(0::int) \<le> 2 \<and>
   fetchRandomRecipes (constBackend (okResponse [fullMeal])) 0 2 = Inr [fullMeal, fullMeal] \<and>
   int (length [fullMeal, fullMeal]) = 2"
  using fetchRandomRecipes_all_or_nothing
      [of "constBackend (okResponse [fullMeal])" 0 2 "[fullMeal, fullMeal]"]
  by (simp add: fetchRandomRecipes_def constBackend_def okResponse_def fetch_def thenP_def
      handleResponse_def numeral_2_eq_2 upt_rec)

text \<open>
  Claim C5. The lookup by identifier fails with the error \<open>Recipe with ID ... not found.\<close>
  if and only if the list \<open>handleResponse\<close> yields for the request is empty, which is the
  case exactly when the response has a success status and its \<open>meals\<close> is \<open>null\<close> or the
  empty array. When that list is not empty the lookup returns its first element. A
  response without a success status makes the lookup fail with the error
  \<open>API request failed: ...\<close>, which is not a not-found error of any identifier.
\<close>

theorem fetchRecipeById_not_found_iff:
  "(fetchRecipeById be k ident = Inl (Error (''Recipe with ID '' @ ident @ '' not found.''))
      \<longleftrightarrow> thenP (fetch be k (API_BASE @ ''lookup.php?i='' @ ident)) handleResponse = Inr []) \<and>
   (thenP (fetch be k (API_BASE @ ''lookup.php?i='' @ ident)) handleResponse = Inr []
      \<longleftrightarrow> (\<exists>r. be k (API_BASE @ ''lookup.php?i='' @ ident) = Responded r \<and> ok r \<and>
            (body r = MealsNull \<or> body r = MealsArray []))) \<and>
   (thenP (fetch be k (API_BASE @ ''lookup.php?i='' @ ident)) handleResponse = Inr (m # ms)
      \<longrightarrow> fetchRecipeById be k ident = Inr m) \<and>
   (be k (API_BASE @ ''lookup.php?i='' @ ident) = Responded r \<and> \<not> ok r \<longrightarrow>
      fetchRecipeById be k ident = Inl (Error (''API request failed: '' @ statusText r)) \<and>
      Error (''API request failed: '' @ statusText r)
        \<noteq> Error (''Recipe with ID '' @ ident' @ '' not found.''))"
  by (auto simp: fetchRecipeById_def thenP_def fetch_def handleResponse_def
      split: sum.splits list.splits fetchOutcome.splits jsonBody.splits if_splits)

theorem fetchRecipeById_not_found_iff_witness:
  "fetchRecipeById (recipeBackend nullResponse) 0 ''52940''
     = Inl (Error ''Recipe with ID 52940 not found.'') \<and>
   fetchRecipeById (recipeBackend (okResponse [fullMeal, lightMeal])) 0 ''52940'' = Inr fullMeal \<and>
   \<not> ok (failedResponse ''Service Unavailable'') \<and>
   fetchRecipeById (recipeBackend (failedResponse ''Service Unavailable'')) 0 ''52940''
     = Inl (Error ''API request failed: Service Unavailable'')"
  using fetchRecipeById_not_found_iff
      [of "recipeBackend nullResponse" 0 "''52940''" fullMeal "[lightMeal]" nullResponse "''52940''"]
    fetchRecipeById_not_found_iff
      [of "recipeBackend (okResponse [fullMeal, lightMeal])" 0 "''52940''" fullMeal "[lightMeal]"
          nullResponse "''52940''"]
    fetchRecipeById_not_found_iff
      [of "recipeBackend (failedResponse ''Service Unavailable'')" 0 "''52940''" fullMeal
          "[lightMeal]" "failedResponse ''Service Unavailable''" "''52940''"]
  by (simp add: fetchRecipeById_def recipeBackend_def nullResponse_def okResponse_def
      failedResponse_def fetch_def thenP_def handleResponse_def API_BASE_def)



text \<open>
  The first request of a search is chosen by the first non-empty field, in the order
  name, ingredient, area, and a search with three empty fields is the fetch of nine
  random records.
\<close>

lemma searchUrl_priority:
  "searchUrl params =
     (if name params \<noteq> [] then Some (API_BASE @ ''search.php?s='' @ name params)
      else if ingredient params \<noteq> [] then Some (API_BASE @ ''filter.php?i='' @ ingredient params)
      else if area params \<noteq> [] then Some (API_BASE @ ''filter.php?a='' @ area params)
      else None)"
  by (simp add: searchUrl_def truthy_def)

lemma searchRecipes_all_empty:
  "name params = [] \<Longrightarrow> ingredient params = [] \<Longrightarrow> area params = [] \<Longrightarrow>
   searchRecipes be k params = fetchRandomRecipes be k 9"
  by (simp add: searchRecipes_def searchUrl_def truthy_def)

text \<open>
  Claim C3, at a search with a name and an ingredient. The first request is the search by
  name alone. The function then tests the ingredient and the area without regard to the
  name, so it looks every record of the name search up by identifier, as it does for the
  abbreviated records of a filter. Here the lookup endpoint answers with status 503: the
  search with name, ingredient and area fails, and the search with the same name and the
  other two fields empty returns the record found by name.
\<close>

theorem search_by_name_with_ingredient:
  "searchUrl \<lparr>name = ''chicken'', ingredient = ''beef'', area = ''Italy''\<rparr>
     = Some (API_BASE @ ''search.php?s=chicken'') \<and>
   searchRecipes (recipeBackend (failedResponse ''Service Unavailable'')) 0
      \<lparr>name = ''chicken'', ingredient = ''beef'', area = ''Italy''\<rparr>
     = Inl (Error ''API request failed: Service Unavailable'') \<and>
   searchRecipes (recipeBackend (failedResponse ''Service Unavailable'')) 0
      \<lparr>name = ''chicken'', ingredient = [], area = []\<rparr>
     = Inr [fullMeal]"
  by (simp add: searchRecipes_def searchUrl_def truthy_def recipeBackend_def fetch_def thenP_def
      handleResponse_def okResponse_def failedResponse_def API_BASE_def enumerate_eq_zip
      fetchRecipeById_def fullMeal_def exampleMeal_def)

section \<open>Timeout wrapper: properties\<close>

text \<open>
  Once the deadline has fired, no event changes the returned promise or makes the wrapper
  call \<open>resolve\<close> or \<open>reject\<close> again; once the operation has settled first, no event
  changes the state at all.
\<close>

lemma deliver_after_deadline:
  "timedOut s \<Longrightarrow> timer s = Fired \<Longrightarrow>
   timedOut (deliver msg s ev) \<and> timer (deliver msg s ev) = Fired \<and>
   returned (deliver msg s ev) = returned s \<and> settleCalls (deliver msg s ev) = settleCalls s"
  by (cases ev) (simp_all add: deliver_def onThen_def onCatch_def)

lemma run_after_deadline:
  "timedOut s \<Longrightarrow> timer s = Fired \<Longrightarrow>
   returned (foldl (deliver msg) s evs) = returned s \<and>
   settleCalls (foldl (deliver msg) s evs) = settleCalls s"
proof (induction evs arbitrary: s)
  case Nil
  then show ?case by simp
next
  case (Cons ev evs)
  from deliver_after_deadline [OF Cons.prems, of msg ev]
  show ?case using Cons.IH [of "deliver msg s ev"] by simp
qed

lemma deliver_after_outcome:
  "opSettled s \<Longrightarrow> timer s = Cleared \<Longrightarrow> deliver msg s ev = s"
  by (cases ev) (simp_all add: deliver_def)

lemma run_after_outcome:
  "opSettled s \<Longrightarrow> timer s = Cleared \<Longrightarrow> foldl (deliver msg) s evs = s"
  by (induction evs) (simp_all add: deliver_after_outcome)


text \<open>
  Claim C1. Whatever events follow, in any number and order: when the deadline fires
  first, the returned promise is rejected with the error carrying the given message, and
  an outcome of the operation that arrives later is dropped; when the operation fulfils
  or rejects first, the timer is cleared and the returned promise has the operation's own
  outcome. In each case the wrapper calls \<open>resolve\<close> or \<open>reject\<close> exactly once.
\<close>

theorem timeout_settles_once:
  "returned (timeout msg (TimerElapsed # evs)) = Some (Rejected (Error msg)) \<and>
   settleCalls (timeout msg (TimerElapsed # evs)) = 1 \<and>
   returned (timeout msg (OpFulfilled v # evs)) = Some (Fulfilled v) \<and>
   settleCalls (timeout msg (OpFulfilled v # evs)) = 1 \<and>
   timer (timeout msg (OpFulfilled v # evs)) = Cleared \<and>
   returned (timeout msg (OpRejected e # evs)) = Some (Rejected e) \<and>
   settleCalls (timeout msg (OpRejected e # evs)) = 1 \<and>
   timer (timeout msg (OpRejected e # evs)) = Cleared"
proof -
  let ?t = "deliver msg timeoutStart TimerElapsed"
  have t: "timedOut ?t" "timer ?t = Fired" "returned ?t = Some (Rejected (Error msg))"
    "settleCalls ?t = 1"
    by (simp_all add: deliver_def timeoutStart_def onTimer_def settle_def)
  let ?f = "deliver msg timeoutStart (OpFulfilled v)"
  have f: "opSettled ?f" "timer ?f = Cleared" "returned ?f = Some (Fulfilled v)"
    "settleCalls ?f = 1"
    by (simp_all add: deliver_def timeoutStart_def onThen_def settle_def clearTimeout_def)
  let ?r = "deliver msg timeoutStart (OpRejected e)"
  have r: "opSettled ?r" "timer ?r = Cleared" "returned ?r = Some (Rejected e)"
    "settleCalls ?r = 1"
    by (simp_all add: deliver_def timeoutStart_def onCatch_def settle_def clearTimeout_def)
  have T: "returned (foldl (deliver msg) ?t evs) = Some (Rejected (Error msg))"
    "settleCalls (foldl (deliver msg) ?t evs) = 1"
    using run_after_deadline [OF t(1,2), of msg evs] t(3,4) by simp_all
  have F: "foldl (deliver msg) ?f evs = ?f"
    using run_after_outcome [OF f(1,2), of msg evs] by simp
  have R: "foldl (deliver msg) ?r evs = ?r"
    using run_after_outcome [OF r(1,2), of msg evs] by simp
  show ?thesis
    unfolding timeout_def foldl_Cons T F R
    using f(2,3,4) r(2,3,4) by simp
qed

theorem timeout_settles_once_witness:
  "returned (timeout ''The request took too long.'' [TimerElapsed, OpFulfilled [fullMeal]])
     = Some (Rejected (Error ''The request took too long.'')) \<and>
   settleCalls (timeout ''The request took too long.'' [TimerElapsed, OpFulfilled [fullMeal]]) = 1 \<and>
   returned (timeout ''The request took too long.'' [OpFulfilled [fullMeal], TimerElapsed])
     = Some (Fulfilled [fullMeal]) \<and>
   timer (timeout ''The request took too long.'' [OpFulfilled [fullMeal], TimerElapsed]) = Cleared"
  using timeout_settles_once
      [of "''The request took too long.''" "[OpFulfilled [fullMeal]]" "[fullMeal]" "TypeError []"]
    timeout_settles_once
      [of "''The request took too long.''" "[TimerElapsed]" "[fullMeal]" "TypeError []"]
  by simp

end
